theory Spec2Isabelle
  imports Main
begin

section \<open>Data of the checkout-calculate-taxes webhook\<close>

text \<open>
  The handler of \<^verbatim>\<open>apps/avatax/src/pages/api/webhooks/checkout-calculate-taxes.ts\<close>
  is an asynchronous function \<^verbatim>\<open>(req, res, ctx)\<close>. The model passes an explicit
  state that records what the handler does to its surroundings (responses sent through
  \<^verbatim>\<open>res\<close>, exceptions given to Sentry, log lines, logger context, the metadata cache,
  the calls of the use case) and takes the behaviour of every imported collaborator as a
  field of a record of functions. A JavaScript exception is a value of type \<open>thrown\<close>.
\<close>

type_synonym metadata_item = "string \<times> string"

record tax_base =
  channel_slug :: string
  sourceObject_id :: string

record recipient_app =
  privateMetadata :: "metadata_item list option"

record payload =
  taxBase :: tax_base
  recipient :: "recipient_app option"
  version :: "string option"

record auth_data =
  saleorApiUrl :: string
  token :: string
  appId :: string

text \<open>
  The only thing the handler asks of a caught exception is
  \<^verbatim>\<open>error instanceof AvataxInvalidAddressError\<close>.
\<close>

datatype thrown = AvataxInvalidAddressError string | OtherThrown string

text \<open>
  \<^verbatim>\<open>switch (err.constructor)\<close> compares the constructor of the error object with four
  classes and has no \<^verbatim>\<open>default\<close>; \<open>OtherConstructor\<close> stands for every other value of
  \<^verbatim>\<open>err.constructor\<close>.
\<close>

datatype error_constructor =
    FailedCalculatingTaxesError
  | ConfigBrokenError
  | ExpectedIncompletePayloadError
  | UnhandledError
  | OtherConstructor

record use_case_error =
  err_constructor :: error_constructor
  err_cause :: "thrown option"

text \<open>
  What \<^verbatim>\<open>useCase.calculateTaxes(payload, authData)\<close> can do: throw before it returns,
  return a promise that rejects, or return a promise that resolves with a Result
  (\<open>Inl\<close> the error, \<open>Inr\<close> the value).
\<close>

datatype 'v use_case_outcome =
    ThrowsSync thrown
  | Rejects thrown
  | Resolves "use_case_error + 'v"

datatype 'r json_body = MessageBody string | BuiltResponse 'r

record 'r response =
  status :: nat
  body :: "'r json_body"

datatype captured_exception =
    CapturedUseCaseError use_case_error
  | LogConfigurationMetricError thrown
  | CapturedThrown thrown

datatype log_level = Info | Warn

record 'r handler_state =
  responses :: "'r response list"
  captured :: "captured_exception list"
  logs :: "(log_level \<times> string) list"
  logger_context :: "(string \<times> string) list"
  sentry_tags :: "(string \<times> string) list"
  metadata_cache :: "metadata_item list option"
  use_case_calls :: nat

text \<open>
  The collaborators the handler imports. \<open>checkPayload\<close> and \<open>logConfiguration\<close> return
  nothing and may throw (\<open>Some e\<close>); the extractor returns a Result (\<open>Inl\<close> the
  configuration error) and may throw; the use case sees the metadata cache as the handler
  left it. \<open>SALEOR_VERSION\<close> is \<^verbatim>\<open>ObservabilityAttributes.SALEOR_VERSION\<close>.
  The logger, the logger context, Sentry, \<^verbatim>\<open>res\<close>, the metadata cache and
  \<^verbatim>\<open>ctx.buildResponse\<close> are taken not to throw.
\<close>

record ('c, 'v, 'r) collaborators =
  checkPayload :: "payload \<Rightarrow> thrown option"
  extractAppConfigFromPrivateMetadata :: "metadata_item list \<Rightarrow> thrown + (string + 'c)"
  logConfiguration :: "'c \<Rightarrow> string \<Rightarrow> thrown option"
  calculateTaxes :: "payload \<Rightarrow> auth_data \<Rightarrow> metadata_item list option \<Rightarrow> 'v use_case_outcome"
  buildResponse :: "'v \<Rightarrow> 'r"
  SALEOR_VERSION :: string

section \<open>Effects\<close>

definition res_status_json :: "nat \<Rightarrow> 'r json_body \<Rightarrow> 'r handler_state \<Rightarrow> 'r handler_state" where
  "res_status_json code b s = s\<lparr>responses := responses s @ [\<lparr>status = code, body = b\<rparr>]\<rparr>"

definition captureException :: "captured_exception \<Rightarrow> 'r handler_state \<Rightarrow> 'r handler_state" where
  "captureException e s = s\<lparr>captured := captured s @ [e]\<rparr>"

definition logger_info :: "string \<Rightarrow> 'r handler_state \<Rightarrow> 'r handler_state" where
  "logger_info m s = s\<lparr>logs := logs s @ [(Info, m)]\<rparr>"

definition logger_warn :: "string \<Rightarrow> 'r handler_state \<Rightarrow> 'r handler_state" where
  "logger_warn m s = s\<lparr>logs := logs s @ [(Warn, m)]\<rparr>"

definition loggerContext_set :: "string \<Rightarrow> string \<Rightarrow> 'r handler_state \<Rightarrow> 'r handler_state" where
  "loggerContext_set k v s = s\<lparr>logger_context := logger_context s @ [(k, v)]\<rparr>"

definition Sentry_setTag :: "string \<Rightarrow> string \<Rightarrow> 'r handler_state \<Rightarrow> 'r handler_state" where
  "Sentry_setTag k v s = s\<lparr>sentry_tags := sentry_tags s @ [(k, v)]\<rparr>"

definition setMetadata :: "metadata_item list \<Rightarrow> 'r handler_state \<Rightarrow> 'r handler_state" where
  "setMetadata md s = s\<lparr>metadata_cache := Some md\<rparr>"

section \<open>The handler\<close>

text \<open>Lines 44 to 56: log lines, logger context and the version tag.\<close>

definition set_observability :: "('c, 'v, 'r) collaborators \<Rightarrow> payload \<Rightarrow> 'r handler_state \<Rightarrow> 'r handler_state" where
  "set_observability env p s =
     (let s1 = logger_info ''Tax base payload for checkout calculate taxes'' s;
          s2 = loggerContext_set ''channelSlug'' (channel_slug (taxBase p)) s1;
          s3 = loggerContext_set ''checkoutId'' (sourceObject_id (taxBase p)) s2;
          s4 = (case version p of
                  None \<Rightarrow> s3
                | Some v \<Rightarrow>
                    if v = [] then s3
                    else loggerContext_set (SALEOR_VERSION env) v
                           (Sentry_setTag (SALEOR_VERSION env) v s3))
      in logger_info ''Handler for CHECKOUT_CALCULATE_TAXES webhook called'' s4)"

text \<open>Line 58: \<^verbatim>\<open>payload.recipient?.privateMetadata ?? []\<close>.\<close>

definition appMetadata :: "payload \<Rightarrow> metadata_item list" where
  "appMetadata p =
     (case recipient p of
        None \<Rightarrow> []
      | Some r \<Rightarrow> (case privateMetadata r of None \<Rightarrow> [] | Some md \<Rightarrow> md))"

text \<open>
  Lines 63 to 80: extraction, then \<^verbatim>\<open>.map\<close> over the Ok value: the configuration is
  logged inside a try whose catch reports a \<^verbatim>\<open>LogConfigurationMetricError\<close> that
  carries the cause, and the callback returns the configuration it was given.
\<close>

definition log_configuration_step ::
  "('c, 'v, 'r) collaborators \<Rightarrow> 'c \<Rightarrow> string \<Rightarrow> 'r handler_state \<Rightarrow> 'c \<times> 'r handler_state" where
  "log_configuration_step env cfg slug s =
     (case logConfiguration env cfg slug of
        None \<Rightarrow> (cfg, s)
      | Some e \<Rightarrow> (cfg, captureException (LogConfigurationMetricError e) s))"

definition extract_config ::
  "('c, 'v, 'r) collaborators \<Rightarrow> metadata_item list \<Rightarrow> string \<Rightarrow> 'r handler_state
     \<Rightarrow> (thrown + (string + 'c)) \<times> 'r handler_state" where
  "extract_config env md slug s =
     (case extractAppConfigFromPrivateMetadata env md of
        Inl e \<Rightarrow> (Inl e, s)
      | Inr (Inl cerr) \<Rightarrow> (Inr (Inl cerr), s)
      | Inr (Inr cfg) \<Rightarrow>
          (case log_configuration_step env cfg slug s of
             (cfg', s') \<Rightarrow> (Inr (Inr cfg'), s')))"

text \<open>
  How the body of the \<^verbatim>\<open>try\<close> is left: by an exception thrown while the block runs
  (the \<^verbatim>\<open>catch\<close> takes it), by \<^verbatim>\<open>return res.status(400).json(...)\<close>, or by
  returning the promise \<^verbatim>\<open>useCase.calculateTaxes(...).then(...)\<close>. The promise is
  returned without \<^verbatim>\<open>await\<close>, so the block is left before the promise settles;
  \<open>ReturnedPromise\<close> carries what the use case's promise settles to (\<open>Inl\<close> rejected).
\<close>

datatype 'v try_exit =
    Threw thrown
  | ReturnedResponse
  | ReturnedPromise "thrown + (use_case_error + 'v)"

text \<open>Lines 97 to 124: the error callback of \<^verbatim>\<open>result.match\<close>.\<close>

definition on_error :: "payload \<Rightarrow> use_case_error \<Rightarrow> 'r handler_state \<Rightarrow> 'r handler_state" where
  "on_error p err s =
     (let s1 = logger_warn ''Error calculating taxes'' s
      in case err_constructor err of
           FailedCalculatingTaxesError \<Rightarrow>
             res_status_json 500
               (MessageBody (''Failed to calculate taxes for checkout: '' @ sourceObject_id (taxBase p))) s1
         | ConfigBrokenError \<Rightarrow>
             res_status_json 500
               (MessageBody (''Failed to calculate taxes due to invalid configuration for checkout: ''
                  @ sourceObject_id (taxBase p))) s1
         | ExpectedIncompletePayloadError \<Rightarrow>
             res_status_json 400
               (MessageBody (''Taxes can't be calculated due to incomplete payload for checkout: ''
                  @ sourceObject_id (taxBase p))) s1
         | UnhandledError \<Rightarrow>
             res_status_json 500
               (MessageBody (''Failed to calculate taxes (Unhandled error) for checkout: ''
                  @ sourceObject_id (taxBase p)))
               (captureException (CapturedUseCaseError err) s1)
         | OtherConstructor \<Rightarrow> s1)"

text \<open>Lines 93 to 125: \<^verbatim>\<open>result.match(ok, err)\<close>, the callback given to \<^verbatim>\<open>then\<close>.\<close>

definition match_result ::
  "('c, 'v, 'r) collaborators \<Rightarrow> payload \<Rightarrow> use_case_error + 'v \<Rightarrow> 'r handler_state \<Rightarrow> 'r handler_state" where
  "match_result env p result s =
     (case result of
        Inr v \<Rightarrow> res_status_json 200 (BuiltResponse (buildResponse env v)) s
      | Inl err \<Rightarrow> on_error p err s)"

text \<open>Lines 90 to 92: the cache is set, then the use case is called.\<close>

definition invoke_use_case ::
  "('c, 'v, 'r) collaborators \<Rightarrow> payload \<Rightarrow> auth_data \<Rightarrow> 'r handler_state
     \<Rightarrow> 'v try_exit \<times> 'r handler_state" where
  "invoke_use_case env p a s =
     (let s1 = setMetadata (appMetadata p) s;
          s2 = s1\<lparr>use_case_calls := Suc (use_case_calls s1)\<rparr>
      in case calculateTaxes env p a (metadata_cache s1) of
           ThrowsSync e \<Rightarrow> (Threw e, s2)
         | Rejects e \<Rightarrow> (ReturnedPromise (Inl e), s2)
         | Resolves r \<Rightarrow> (ReturnedPromise (Inr r), s2))"

text \<open>Lines 40 to 126: the body of the \<^verbatim>\<open>try\<close>.\<close>

definition try_block ::
  "('c, 'v, 'r) collaborators \<Rightarrow> payload \<Rightarrow> auth_data \<Rightarrow> 'r handler_state
     \<Rightarrow> 'v try_exit \<times> 'r handler_state" where
  "try_block env p a s =
     (case checkPayload env p of
        Some e \<Rightarrow> (Threw e, s)
      | None \<Rightarrow>
          (case extract_config env (appMetadata p) (channel_slug (taxBase p)) (set_observability env p s) of
             (Inl e, s1) \<Rightarrow> (Threw e, s1)
           | (Inr (Inl cerr), s1) \<Rightarrow>
               (ReturnedResponse,
                res_status_json 400
                  (MessageBody (''App configuration is broken for checkout: '' @ sourceObject_id (taxBase p)))
                  (logger_warn ''Failed to extract app config from metadata'' s1))
           | (Inr (Inr cfg), s1) \<Rightarrow> invoke_use_case env p a s1))"

text \<open>Lines 127 to 143: the \<^verbatim>\<open>catch\<close>.\<close>

definition catch_block :: "thrown \<Rightarrow> 'r handler_state \<Rightarrow> 'r handler_state" where
  "catch_block e s =
     (case e of
        AvataxInvalidAddressError m \<Rightarrow>
          res_status_json 400 (MessageBody ''InvalidAppAddressError: Check address in app configuration'')
            (logger_warn ''InvalidAppAddressError: App returns status 400 due to broken address configuration'' s)
      | OtherThrown m \<Rightarrow>
          res_status_json 500 (MessageBody ''Unhandled error'') (captureException (CapturedThrown e) s))"

text \<open>
  The promise of the asynchronous handler: fulfilled, or rejected with the exception that
  left it.
\<close>

datatype completion = Fulfilled | RejectedWith thrown

text \<open>
  The handler. An exception thrown inside the \<^verbatim>\<open>try\<close> goes to the \<^verbatim>\<open>catch\<close>. A
  returned promise settles after the \<^verbatim>\<open>try\<close> is left: when the use case's promise
  rejects, the promise made by \<^verbatim>\<open>then\<close> rejects with the same reason and so does the
  handler's; when it resolves, the callback runs.
\<close>

definition handler ::
  "('c, 'v, 'r) collaborators \<Rightarrow> payload \<Rightarrow> auth_data \<Rightarrow> 'r handler_state
     \<Rightarrow> completion \<times> 'r handler_state" where
  "handler env p a s =
     (case try_block env p a s of
        (Threw e, s1) \<Rightarrow> (Fulfilled, catch_block e s1)
      | (ReturnedResponse, s1) \<Rightarrow> (Fulfilled, s1)
      | (ReturnedPromise (Inl e), s1) \<Rightarrow> (RejectedWith e, s1)
      | (ReturnedPromise (Inr result), s1) \<Rightarrow> (Fulfilled, match_result env p result s1))"

text \<open>The state in which the use case is reached: after the log lines and the extraction.\<close>

definition after_extraction :: "('c, 'v, 'r) collaborators \<Rightarrow> payload \<Rightarrow> 'r handler_state \<Rightarrow> 'r handler_state" where
  "after_extraction env p s =
     snd (extract_config env (appMetadata p) (channel_slug (taxBase p)) (set_observability env p s))"

definition init_state :: "'r handler_state" where
  "init_state = \<lparr>responses = [], captured = [], logs = [], logger_context = [],
                 sentry_tags = [], metadata_cache = None, use_case_calls = 0\<rparr>"

text \<open>
  What a run sends and how it completes, as a function of the collaborators other than
  the configuration logger; \<open>handler_outcome\<close> proves it equal to what \<open>handler\<close> does.
\<close>

definition catch_response :: "thrown \<Rightarrow> 'r response" where
  "catch_response e =
     (case e of
        AvataxInvalidAddressError m \<Rightarrow>
          \<lparr>status = 400, body = MessageBody ''InvalidAppAddressError: Check address in app configuration''\<rparr>
      | OtherThrown m \<Rightarrow> \<lparr>status = 500, body = MessageBody ''Unhandled error''\<rparr>)"

definition result_responses ::
  "('c, 'v, 'r) collaborators \<Rightarrow> payload \<Rightarrow> use_case_error + 'v \<Rightarrow> 'r response list" where
  "result_responses env p result = responses (match_result env p result init_state)"

definition outcome_of ::
  "('c, 'v, 'r) collaborators \<Rightarrow> payload \<Rightarrow> auth_data \<Rightarrow> completion \<times> 'r response list" where
  "outcome_of env p a =
     (case checkPayload env p of
        Some e \<Rightarrow> (Fulfilled, [catch_response e])
      | None \<Rightarrow>
          (case extractAppConfigFromPrivateMetadata env (appMetadata p) of
             Inl e \<Rightarrow> (Fulfilled, [catch_response e])
           | Inr (Inl cerr) \<Rightarrow>
               (Fulfilled,
                [\<lparr>status = 400,
                  body = MessageBody (''App configuration is broken for checkout: ''
                           @ sourceObject_id (taxBase p))\<rparr>])
           | Inr (Inr cfg) \<Rightarrow>
               (case calculateTaxes env p a (Some (appMetadata p)) of
                  ThrowsSync e \<Rightarrow> (Fulfilled, [catch_response e])
                | Rejects e \<Rightarrow> (RejectedWith e, [])
                | Resolves result \<Rightarrow> (Fulfilled, result_responses env p result))))"

section \<open>The specification's words\<close>

text \<open>
  The status table of the specification (section 4.3), row by row as it is written there.
  It is compared with what \<open>on_error\<close> sends.
\<close>

definition status_table :: "(error_constructor \<times> nat) list" where
  "status_table =
     [(ExpectedIncompletePayloadError, 400),
      (ConfigBrokenError, 500),
      (FailedCalculatingTaxesError, 500),
      (UnhandledError, 500)]"

text \<open>The four variants of the error taxonomy: the rows of the table.\<close>

definition use_case_error_variants :: "error_constructor list" where
  "use_case_error_variants = map fst status_table"

text \<open>
  Modelled from the spec: the class \<^verbatim>\<open>CalculateTaxesUseCase\<close>
  (\<^verbatim>\<open>modules/calculate-taxes/use-case/calculate-taxes.use-case.ts\<close>) is imported by the
  handler and is not among the sources. Its steps follow section 4.3: an incomplete payload
  fails with \<open>ExpectedIncompletePayloadError\<close>; a configuration that does not resolve
  fails with \<open>ConfigBrokenError\<close>; a provider error that is a known domain failure
  fails with \<open>FailedCalculatingTaxesError\<close> and any other with \<open>UnhandledError\<close>, both
  carrying the cause; a provider success is the value. The completeness check, the
  resolution of the configuration, the provider and the set of known domain failures are
  parameters. The use case only returns its Result: what reaches Sentry in the model is
  what the handler itself hands over.
\<close>

record ('c, 'v) use_case_deps =
  payload_complete :: "payload \<Rightarrow> bool"
  resolve_config :: "payload \<Rightarrow> metadata_item list option \<Rightarrow> string + 'c"
  provider_call :: "'c \<Rightarrow> payload \<Rightarrow> auth_data \<Rightarrow> thrown + 'v"
  known_domain_failure :: "thrown \<Rightarrow> bool"

definition calculateTaxes_spec ::
  "('c, 'v) use_case_deps \<Rightarrow> payload \<Rightarrow> auth_data \<Rightarrow> metadata_item list option \<Rightarrow> 'v use_case_outcome" where
  "calculateTaxes_spec deps p a cache =
     (if \<not> payload_complete deps p
      then Resolves (Inl \<lparr>err_constructor = ExpectedIncompletePayloadError, err_cause = None\<rparr>)
      else case resolve_config deps p cache of
             Inl cerr \<Rightarrow> Resolves (Inl \<lparr>err_constructor = ConfigBrokenError, err_cause = None\<rparr>)
           | Inr cfg \<Rightarrow>
               (case provider_call deps cfg p a of
                  Inr v \<Rightarrow> Resolves (Inr v)
                | Inl e \<Rightarrow>
                    if known_domain_failure deps e
                    then Resolves (Inl \<lparr>err_constructor = FailedCalculatingTaxesError, err_cause = Some e\<rparr>)
                    else Resolves (Inl \<lparr>err_constructor = UnhandledError, err_cause = Some e\<rparr>)))"

section \<open>The Typesense webhooks-status handler\<close>

text \<open>
  \<^verbatim>\<open>apps/typesense/src/pages/api/webhooks-status.ts\<close>. The factories are injected; the
  model takes the services they build as the outcomes of the methods the handler calls:
  \<open>configManager_get\<close> is \<^verbatim>\<open>(await configManager.get(url)).getConfig()\<close>,
  \<open>typesense_ping\<close> is \<^verbatim>\<open>ping()\<close> of the provider built from the six arguments,
  \<open>fetchOwnWebhooks\<close> is the query with \<^verbatim>\<open>r.data?.app?.webhooks\<close> read from its
  result. \<open>Some e\<close> and \<open>Inl e\<close> are a rejected promise. The numbers \<^verbatim>\<open>port\<close> and
  \<^verbatim>\<open>connectionTimeoutSeconds\<close> are only passed on.
\<close>

record typesense_app_config =
  host :: string
  apiKey :: string
  protocol :: string
  port :: int
  connectionTimeoutSeconds :: int

record fields_mapping =
  enabledTypesenseFields :: "string list"

record typesense_config =
  appConfig :: "typesense_app_config option"
  fieldsMapping :: fields_mapping

record 'w status_collaborators =
  configManager_get :: "string \<Rightarrow> thrown + typesense_config"
  typesense_ping :: "string \<Rightarrow> string \<Rightarrow> string \<Rightarrow> int \<Rightarrow> int \<Rightarrow> string list \<Rightarrow> thrown option"
  disableOwnWebhooks :: "string \<Rightarrow> thrown option"
  fetchOwnWebhooks :: "string \<Rightarrow> thrown + 'w list option"
  isWebhookUpdateNeeded :: "string list \<Rightarrow> bool"
  webhook_name :: "'w \<Rightarrow> string"

datatype 'w status_body = WebhooksStatusResponse "'w list" bool | EndOfResponse

record 'w status_state =
  status_responses :: "(nat \<times> 'w status_body) list"
  disable_calls :: nat
  ping_calls :: nat
  debug_logs :: "string list"

definition logger_debug :: "string \<Rightarrow> 'w status_state \<Rightarrow> 'w status_state" where
  "logger_debug m s = s\<lparr>debug_logs := debug_logs s @ [m]\<rparr>"

definition res_status :: "nat \<Rightarrow> 'w status_body \<Rightarrow> 'w status_state \<Rightarrow> 'w status_state" where
  "res_status code b s = s\<lparr>status_responses := status_responses s @ [(code, b)]\<rparr>"

definition call_disableOwnWebhooks ::
  "'w status_collaborators \<Rightarrow> auth_data \<Rightarrow> 'w status_state \<Rightarrow> thrown option \<times> 'w status_state" where
  "call_disableOwnWebhooks env a s =
     (disableOwnWebhooks env (appId a), s\<lparr>disable_calls := Suc (disable_calls s)\<rparr>)"

definition ping_result :: "'w status_collaborators \<Rightarrow> typesense_config \<Rightarrow> typesense_app_config \<Rightarrow> thrown option" where
  "ping_result env config ac =
     typesense_ping env (host ac) (apiKey ac) (protocol ac) (port ac)
       (connectionTimeoutSeconds ac) (enabledTypesenseFields (fieldsMapping config))"

text \<open>
  Lines 75 to 103. The awaits of \<^verbatim>\<open>disableOwnWebhooks\<close> stand outside any \<^verbatim>\<open>try\<close>
  that would take their rejection, so the first component is the exception that leaves
  the handler, if any. The ping is awaited inside its \<^verbatim>\<open>try\<close>.
\<close>

definition settings_step ::
  "'w status_collaborators \<Rightarrow> auth_data \<Rightarrow> typesense_config \<Rightarrow> 'w status_state
     \<Rightarrow> thrown option \<times> 'w status_state" where
  "settings_step env a config s =
     (case appConfig config of
        None \<Rightarrow> call_disableOwnWebhooks env a (logger_debug ''Settings not set, will disable webhooks'' s)
      | Some ac \<Rightarrow>
          (let s1 = logger_debug ''Settings set, will ping Typesense'' s;
               s2 = s1\<lparr>ping_calls := Suc (ping_calls s1)\<rparr>
           in case ping_result env config ac of
                None \<Rightarrow> (None, s2)
              | Some e \<Rightarrow>
                  call_disableOwnWebhooks env a
                    (logger_debug ''Typesense ping failed, will disable webhooks'' s2)))"

text \<open>Lines 105 to 127.\<close>

definition fetch_step :: "'w status_collaborators \<Rightarrow> auth_data \<Rightarrow> 'w status_state \<Rightarrow> 'w status_state" where
  "fetch_step env a s =
     (let s1 = logger_debug ''Settings and Typsense are correct, will fetch Webhooks from Saleor'' s
      in case fetchOwnWebhooks env (appId a) of
           Inl e \<Rightarrow> res_status 500 EndOfResponse s1
         | Inr None \<Rightarrow> res_status 500 EndOfResponse s1
         | Inr (Some ws) \<Rightarrow>
             res_status 200
               (WebhooksStatusResponse ws (isWebhookUpdateNeeded env (map (webhook_name env) ws))) s1)"

definition webhooksStatusHandler ::
  "'w status_collaborators \<Rightarrow> auth_data \<Rightarrow> 'w status_state \<Rightarrow> completion \<times> 'w status_state" where
  "webhooksStatusHandler env a s =
     (case configManager_get env (saleorApiUrl a) of
        Inl e \<Rightarrow> (RejectedWith e, s)
      | Inr config \<Rightarrow>
          (case settings_step env a config (logger_debug ''fetched settings'' s) of
             (Some e, s1) \<Rightarrow> (RejectedWith e, s1)
           | (None, s1) \<Rightarrow> (Fulfilled, fetch_step env a s1)))"

text \<open>Whether the ping of the configured service throws.\<close>

definition ping_throws :: "'w status_collaborators \<Rightarrow> typesense_config \<Rightarrow> bool" where
  "ping_throws env config =
     (case appConfig config of
        None \<Rightarrow> False
      | Some ac \<Rightarrow> (case ping_result env config ac of None \<Rightarrow> False | Some e \<Rightarrow> True))"

section \<open>Concrete requests\<close>

definition demo_payload :: payload where
  "demo_payload =
     \<lparr>taxBase = \<lparr>channel_slug = ''default-channel'', sourceObject_id = ''Q2hlY2tvdXQ6MQ==''\<rparr>,
      recipient = Some \<lparr>privateMetadata = Some [(''avatax-config'', ''{}'')]\<rparr>,
      version = Some ''3.20''\<rparr>"

definition bare_payload :: payload where
  "bare_payload =
     \<lparr>taxBase = \<lparr>channel_slug = ''default-channel'', sourceObject_id = ''Q2hlY2tvdXQ6Mg==''\<rparr>,
      recipient = None,
      version = None\<rparr>"

definition demo_auth :: auth_data where
  "demo_auth = \<lparr>saleorApiUrl = ''https://shop.example/graphql/'', token = ''t'', appId = ''app-1''\<rparr>"

text \<open>
  Collaborators for the concrete runs: the payload check passes, the extractor accepts
  exactly a non-empty metadata list, and the use case settles to the given outcome.
\<close>

definition demo_env :: "(thrown option) \<Rightarrow> nat use_case_outcome \<Rightarrow> (nat, nat, nat) collaborators" where
  "demo_env logging outcome =
     \<lparr>checkPayload = (\<lambda>p. None),
      extractAppConfigFromPrivateMetadata =
        (\<lambda>md. if md = [] then Inr (Inl ''missing configuration'') else Inr (Inr (length md))),
      logConfiguration = (\<lambda>cfg slug. logging),
      calculateTaxes = (\<lambda>p a cache. outcome),
      buildResponse = (\<lambda>v. v + 1),
      SALEOR_VERSION = ''saleorVersion''\<rparr>"

text \<open>Collaborators whose extractor accepts every metadata list, the empty one too.\<close>

definition lenient_env :: "nat use_case_outcome \<Rightarrow> (nat, nat, nat) collaborators" where
  "lenient_env outcome =
     \<lparr>checkPayload = (\<lambda>p. None),
      extractAppConfigFromPrivateMetadata = (\<lambda>md. Inr (Inr (length md))),
      logConfiguration = (\<lambda>cfg slug. None),
      calculateTaxes = (\<lambda>p a cache. outcome),
      buildResponse = (\<lambda>v. v + 1),
      SALEOR_VERSION = ''saleorVersion''\<rparr>"

definition demo_error :: "error_constructor \<Rightarrow> use_case_error" where
  "demo_error c = \<lparr>err_constructor = c, err_cause = None\<rparr>"

definition demo_deps :: "(nat, nat) use_case_deps" where
  "demo_deps =
     \<lparr>payload_complete = (\<lambda>p. True),
      resolve_config = (\<lambda>p cache. case cache of None \<Rightarrow> Inl ''no metadata'' | Some md \<Rightarrow> Inr (length md)),
      provider_call = (\<lambda>cfg p a. Inl (OtherThrown ''ECONNRESET'')),
      known_domain_failure = (\<lambda>e. case e of AvataxInvalidAddressError m \<Rightarrow> True | OtherThrown m \<Rightarrow> False)\<rparr>"

definition demo_status_env :: "thrown option \<Rightarrow> typesense_config \<Rightarrow> string status_collaborators" where
  "demo_status_env ping config =
     \<lparr>configManager_get = (\<lambda>url. Inr config),
      typesense_ping = (\<lambda>h k pr po t ks. ping),
      disableOwnWebhooks = (\<lambda>app. None),
      fetchOwnWebhooks = (\<lambda>app. Inr (Some [''PRODUCT_CREATED''])),
      isWebhookUpdateNeeded = (\<lambda>names. False),
      webhook_name = (\<lambda>w. w)\<rparr>"

definition demo_typesense_config :: typesense_config where
  "demo_typesense_config =
     \<lparr>appConfig = Some \<lparr>host = ''localhost'', apiKey = ''xyz'', protocol = ''http'', port = 8108,
                        connectionTimeoutSeconds = 2\<rparr>,
      fieldsMapping = \<lparr>enabledTypesenseFields = [''name'']\<rparr>\<rparr>"

definition init_status_state :: "'w status_state" where
  "init_status_state = \<lparr>status_responses = [], disable_calls = 0, ping_calls = 0, debug_logs = []\<rparr>"

section \<open>Effects on the fields of the state\<close>


lemma effects_responses [simp]:
  "responses (logger_info m s) = responses s"
  "responses (logger_warn m s) = responses s"
  "responses (loggerContext_set k v s) = responses s"
  "responses (Sentry_setTag k v s) = responses s"
  "responses (setMetadata md s) = responses s"
  "responses (captureException c s) = responses s"
  "responses (res_status_json n b s) = responses s @ [\<lparr>status = n, body = b\<rparr>]"
  by (simp_all add: logger_info_def logger_warn_def loggerContext_set_def Sentry_setTag_def
      setMetadata_def captureException_def res_status_json_def)

lemma effects_captured [simp]:
  "captured (logger_info m s) = captured s"
  "captured (logger_warn m s) = captured s"
  "captured (loggerContext_set k v s) = captured s"
  "captured (Sentry_setTag k v s) = captured s"
  "captured (setMetadata md s) = captured s"
  "captured (captureException c s) = captured s @ [c]"
  "captured (res_status_json n b s) = captured s"
  by (simp_all add: logger_info_def logger_warn_def loggerContext_set_def Sentry_setTag_def
      setMetadata_def captureException_def res_status_json_def)

lemma effects_metadata_cache [simp]:
  "metadata_cache (logger_info m s) = metadata_cache s"
  "metadata_cache (logger_warn m s) = metadata_cache s"
  "metadata_cache (loggerContext_set k v s) = metadata_cache s"
  "metadata_cache (Sentry_setTag k v s) = metadata_cache s"
  "metadata_cache (setMetadata md s) = Some md"
  "metadata_cache (captureException c s) = metadata_cache s"
  "metadata_cache (res_status_json n b s) = metadata_cache s"
  by (simp_all add: logger_info_def logger_warn_def loggerContext_set_def Sentry_setTag_def
      setMetadata_def captureException_def res_status_json_def)

lemma effects_use_case_calls [simp]:
  "use_case_calls (logger_info m s) = use_case_calls s"
  "use_case_calls (logger_warn m s) = use_case_calls s"
  "use_case_calls (loggerContext_set k v s) = use_case_calls s"
  "use_case_calls (Sentry_setTag k v s) = use_case_calls s"
  "use_case_calls (setMetadata md s) = use_case_calls s"
  "use_case_calls (captureException c s) = use_case_calls s"
  "use_case_calls (res_status_json n b s) = use_case_calls s"
  by (simp_all add: logger_info_def logger_warn_def loggerContext_set_def Sentry_setTag_def
      setMetadata_def captureException_def res_status_json_def)

lemma set_observability_fields [simp]:
  "responses (set_observability env p s) = responses s"
  "captured (set_observability env p s) = captured s"
  "metadata_cache (set_observability env p s) = metadata_cache s"
  "use_case_calls (set_observability env p s) = use_case_calls s"
  by (simp_all add: set_observability_def Let_def split: option.split)

lemma extract_config_fields [simp]:
  "responses (snd (extract_config env md slug s)) = responses s"
  "metadata_cache (snd (extract_config env md slug s)) = metadata_cache s"
  "use_case_calls (snd (extract_config env md slug s)) = use_case_calls s"
  by (simp_all add: extract_config_def log_configuration_step_def split: sum.split option.split)

lemma extract_config_fst:
  "fst (extract_config env md slug s) = extractAppConfigFromPrivateMetadata env md"
  by (simp add: extract_config_def log_configuration_step_def split: sum.split option.split)

lemma extract_config_captured:
  "captured (snd (extract_config env md slug s)) =
     captured s @
       (case extractAppConfigFromPrivateMetadata env md of
          Inr (Inr cfg) \<Rightarrow>
            (case logConfiguration env cfg slug of
               None \<Rightarrow> []
             | Some e \<Rightarrow> [LogConfigurationMetricError e])
        | _ \<Rightarrow> [])"
  by (simp add: extract_config_def log_configuration_step_def split: sum.split option.split)

lemma extract_config_ok:
  "extractAppConfigFromPrivateMetadata env md = Inr (Inr cfg) \<Longrightarrow>
   extract_config env md slug s = (Inr (Inr cfg), snd (extract_config env md slug s))"
  by (simp add: extract_config_def log_configuration_step_def split: option.split)

lemma extract_config_err:
  "extractAppConfigFromPrivateMetadata env md = Inr (Inl cerr) \<Longrightarrow>
   extract_config env md slug s = (Inr (Inl cerr), s)"
  by (simp add: extract_config_def)

lemma extract_config_throws:
  "extractAppConfigFromPrivateMetadata env md = Inl e \<Longrightarrow>
   extract_config env md slug s = (Inl e, s)"
  by (simp add: extract_config_def)

lemma after_extraction_fields [simp]:
  "responses (after_extraction env p s) = responses s"
  "metadata_cache (after_extraction env p s) = metadata_cache s"
  "use_case_calls (after_extraction env p s) = use_case_calls s"
  by (simp_all add: after_extraction_def)

lemma try_block_reaches_use_case:
  assumes "checkPayload env p = None"
    and "extractAppConfigFromPrivateMetadata env (appMetadata p) = Inr (Inr cfg)"
  shows "try_block env p a s = invoke_use_case env p a (after_extraction env p s)"
proof -
  have "extract_config env (appMetadata p) (channel_slug (taxBase p)) (set_observability env p s)
          = (Inr (Inr cfg), after_extraction env p s)"
    unfolding after_extraction_def using assms(2) by (rule extract_config_ok)
  with assms(1) show ?thesis
    by (simp add: try_block_def)
qed

lemma handler_resolved:
  assumes "checkPayload env p = None"
    and "extractAppConfigFromPrivateMetadata env (appMetadata p) = Inr (Inr cfg)"
    and "calculateTaxes env p a (Some (appMetadata p)) = Resolves result"
  shows "handler env p a s =
           (Fulfilled,
            match_result env p result
              ((setMetadata (appMetadata p) (after_extraction env p s))
                 \<lparr>use_case_calls := Suc (use_case_calls s)\<rparr>))"
  using assms(3)
  by (simp add: handler_def try_block_reaches_use_case [OF assms(1,2)] invoke_use_case_def Let_def)

lemma use_case_calls_update_fields [simp]:
  "responses (s\<lparr>use_case_calls := n\<rparr>) = responses s"
  "captured (s\<lparr>use_case_calls := n\<rparr>) = captured s"
  "metadata_cache (s\<lparr>use_case_calls := n\<rparr>) = metadata_cache s"
  by simp_all

section \<open>How a run completes and what it sends\<close>

lemma logConfiguration_update_fields [simp]:
  "checkPayload (env\<lparr>logConfiguration := l\<rparr>) = checkPayload env"
  "extractAppConfigFromPrivateMetadata (env\<lparr>logConfiguration := l\<rparr>) = extractAppConfigFromPrivateMetadata env"
  "calculateTaxes (env\<lparr>logConfiguration := l\<rparr>) = calculateTaxes env"
  "buildResponse (env\<lparr>logConfiguration := l\<rparr>) = buildResponse env"
  by simp_all

lemma catch_block_responses:
  "responses (catch_block e s) = responses s @ [catch_response e]"
  by (cases e) (simp_all add: catch_block_def catch_response_def)

lemma match_result_responses:
  "responses (match_result env p r s) = responses s @ result_responses env p r"
proof (cases r)
  case (Inl err)
  then show ?thesis
    by (cases "err_constructor err")
       (simp_all add: result_responses_def match_result_def on_error_def init_state_def)
next
  case (Inr v)
  then show ?thesis
    by (simp add: result_responses_def match_result_def init_state_def)
qed

lemma handler_outcome:
  "(fst (handler env p a s), responses (snd (handler env p a s)))
     = (fst (outcome_of env p a), responses s @ snd (outcome_of env p a))"
proof (cases "checkPayload env p")
  case (Some e)
  then show ?thesis
    by (simp add: handler_def try_block_def outcome_of_def catch_block_responses)
next
  case None
  show ?thesis
  proof (cases "extractAppConfigFromPrivateMetadata env (appMetadata p)")
    case (Inl e)
    with None show ?thesis
      by (simp add: handler_def try_block_def outcome_of_def extract_config_throws
          catch_block_responses)
  next
    case (Inr r)
    show ?thesis
    proof (cases r)
      case (Inl cerr)
      with None Inr show ?thesis
        by (simp add: handler_def try_block_def outcome_of_def extract_config_err)
    next
      case (Inr cfg)
      with \<open>extractAppConfigFromPrivateMetadata env (appMetadata p) = Inr r\<close>
      have ok: "extractAppConfigFromPrivateMetadata env (appMetadata p) = Inr (Inr cfg)"
        by simp
      show ?thesis
      proof (cases "calculateTaxes env p a (Some (appMetadata p))")
        case (ThrowsSync e)
        with None ok show ?thesis
          by (simp add: handler_def try_block_reaches_use_case [OF None ok] invoke_use_case_def
              Let_def outcome_of_def catch_block_responses)
      next
        case (Rejects e)
        with None ok show ?thesis
          by (simp add: handler_def try_block_reaches_use_case [OF None ok] invoke_use_case_def
              Let_def outcome_of_def)
      next
        case (Resolves result)
        with None ok show ?thesis
          by (simp add: handler_resolved [OF None ok Resolves] outcome_of_def
              match_result_responses)
      qed
    qed
  qed
qed

lemma outcome_of_logging:
  "outcome_of (env\<lparr>logConfiguration := l\<rparr>) p a = outcome_of env p a"
  by (simp add: outcome_of_def result_responses_def match_result_def
      split: option.split sum.split use_case_outcome.split)

lemma exception_in_try_block_is_caught:
  "try_block env p a s = (Threw e, s1) \<Longrightarrow> handler env p a s = (Fulfilled, catch_block e s1)"
  by (simp add: handler_def)

lemma caught_address_error:
  "catch_block (AvataxInvalidAddressError m) s =
     res_status_json 400 (MessageBody ''InvalidAppAddressError: Check address in app configuration'')
       (logger_warn ''InvalidAppAddressError: App returns status 400 due to broken address configuration'' s)"
  by (simp add: catch_block_def)

lemma caught_other_exception:
  "catch_block (OtherThrown m) s =
     res_status_json 500 (MessageBody ''Unhandled error'')
       (captureException (CapturedThrown (OtherThrown m)) s)"
  by (simp add: catch_block_def)

lemma rejected_promise_leaves_handler:
  assumes "checkPayload env p = None"
    and "extractAppConfigFromPrivateMetadata env (appMetadata p) = Inr (Inr cfg)"
    and "calculateTaxes env p a (Some (appMetadata p)) = Rejects e"
  shows "fst (handler env p a s) = RejectedWith e"
    and "responses (snd (handler env p a s)) = responses s"
  using assms(3)
  by (simp_all add: handler_def try_block_reaches_use_case [OF assms(1,2)] invoke_use_case_def Let_def)

lemma handler_extraction_error:
  assumes "checkPayload env p = None"
    and "extractAppConfigFromPrivateMetadata env (appMetadata p) = Inr (Inl cerr)"
  shows "handler env p a s =
           (Fulfilled,
            res_status_json 400
              (MessageBody (''App configuration is broken for checkout: '' @ sourceObject_id (taxBase p)))
              (logger_warn ''Failed to extract app config from metadata'' (set_observability env p s)))"
  using assms
  by (simp add: handler_def try_block_def extract_config_err)

lemma handler_use_case_calls_ok:
  assumes "checkPayload env p = None"
    and "extractAppConfigFromPrivateMetadata env (appMetadata p) = Inr (Inr cfg)"
  shows "use_case_calls (snd (handler env p a s)) = Suc (use_case_calls s)"
    and "metadata_cache (snd (handler env p a s)) = Some (appMetadata p)"
proof -
  have fields:
    "use_case_calls (catch_block e t) = use_case_calls t"
    "metadata_cache (catch_block e t) = metadata_cache t"
    "use_case_calls (match_result env p r t) = use_case_calls t"
    "metadata_cache (match_result env p r t) = metadata_cache t"
    for e r and t :: "'c handler_state"
    by (simp_all add: catch_block_def match_result_def on_error_def Let_def
        split: thrown.split sum.split error_constructor.split)
  show "use_case_calls (snd (handler env p a s)) = Suc (use_case_calls s)"
    by (simp add: handler_def try_block_reaches_use_case [OF assms] invoke_use_case_def Let_def fields
        split: use_case_outcome.split sum.split)
  show "metadata_cache (snd (handler env p a s)) = Some (appMetadata p)"
    by (simp add: handler_def try_block_reaches_use_case [OF assms] invoke_use_case_def Let_def fields
        split: use_case_outcome.split sum.split)
qed

text \<open>What the use case of section 4.3 can return.\<close>

lemma calculateTaxes_spec_resolves:
  "\<exists>r. calculateTaxes_spec deps p a cache = Resolves r"
  by (simp add: calculateTaxes_spec_def split: sum.split)

lemma calculateTaxes_spec_error_variants:
  assumes "calculateTaxes_spec deps p a cache = Resolves (Inl err)"
  shows "err_constructor err \<in> set use_case_error_variants"
proof (cases "payload_complete deps p")
  case False
  with assms show ?thesis
    by (auto simp add: calculateTaxes_spec_def use_case_error_variants_def status_table_def)
next
  case True
  show ?thesis
  proof (cases "resolve_config deps p cache")
    case (Inl cerr)
    with True assms show ?thesis
      by (auto simp add: calculateTaxes_spec_def use_case_error_variants_def status_table_def)
  next
    case (Inr cfg)
    with True assms show ?thesis
      by (cases "provider_call deps cfg p a")
         (auto simp add: calculateTaxes_spec_def use_case_error_variants_def status_table_def
            split: if_splits)
  qed
qed

lemma listed_variant_gets_one_response:
  assumes "checkPayload env p = None"
    and "extractAppConfigFromPrivateMetadata env (appMetadata p) = Inr (Inr cfg)"
    and "calculateTaxes env p a (Some (appMetadata p)) = Resolves (Inl err)"
    and "err_constructor err \<in> set use_case_error_variants"
  shows "fst (handler env p a s) = Fulfilled"
    and "\<exists>r. responses (snd (handler env p a s)) = responses s @ [r]"
proof -
  from assms(4) have "err_constructor err \<noteq> OtherConstructor"
    by (auto simp add: use_case_error_variants_def status_table_def)
  then show "\<exists>r. responses (snd (handler env p a s)) = responses s @ [r]"
    by (cases "err_constructor err")
       (simp_all add: handler_resolved [OF assms(1-3)] match_result_def on_error_def)
  show "fst (handler env p a s) = Fulfilled"
    by (simp add: handler_resolved [OF assms(1-3)])
qed

lemma unlisted_constructor_falls_through:
  assumes "checkPayload env p = None"
    and "extractAppConfigFromPrivateMetadata env (appMetadata p) = Inr (Inr cfg)"
    and "calculateTaxes env p a (Some (appMetadata p)) = Resolves (Inl err)"
    and "err_constructor err = OtherConstructor"
  shows "fst (handler env p a s) = Fulfilled"
    and "responses (snd (handler env p a s)) = responses s"
  using assms(4)
  by (simp_all add: handler_resolved [OF assms(1-3)] match_result_def on_error_def)

lemma handler_reaches_use_case:
  assumes "checkPayload env p = None"
    and "extractAppConfigFromPrivateMetadata env (appMetadata p) = Inr (Inr cfg)"
  shows "handler env p a s =
           (case calculateTaxes env p a (Some (appMetadata p)) of
              ThrowsSync e \<Rightarrow>
                (Fulfilled,
                 catch_block e
                   ((setMetadata (appMetadata p) (after_extraction env p s))
                      \<lparr>use_case_calls := Suc (use_case_calls s)\<rparr>))
            | Rejects e \<Rightarrow>
                (RejectedWith e,
                 (setMetadata (appMetadata p) (after_extraction env p s))
                   \<lparr>use_case_calls := Suc (use_case_calls s)\<rparr>)
            | Resolves result \<Rightarrow>
                (Fulfilled,
                 match_result env p result
                   ((setMetadata (appMetadata p) (after_extraction env p s))
                      \<lparr>use_case_calls := Suc (use_case_calls s)\<rparr>)))"
  by (simp add: handler_def try_block_reaches_use_case [OF assms] invoke_use_case_def Let_def
      split: use_case_outcome.split sum.split)

section \<open>The claims about the tax webhook\<close>

text \<open>
  Claim C1. When the payload check passes, the configuration is extracted and the use
  case's promise resolves with an error whose constructor has a row in the status table of
  section 4.3, the handler completes having sent one response more: its status is the
  one of the table and its body is a message that ends with the checkout id
  \<^verbatim>\<open>payload.taxBase.sourceObject.id\<close>.
\<close>

theorem error_variant_status_and_message:
  assumes "checkPayload env p = None"
    and "extractAppConfigFromPrivateMetadata env (appMetadata p) = Inr (Inr cfg)"
    and "calculateTaxes env p a (Some (appMetadata p)) = Resolves (Inl err)"
    and "map_of status_table (err_constructor err) = Some n"
  shows "\<exists>pre. fst (handler env p a s) = Fulfilled \<and>
           responses (snd (handler env p a s)) =
             responses s @ [\<lparr>status = n, body = MessageBody (pre @ sourceObject_id (taxBase p))\<rparr>]"
proof (cases "err_constructor err")
  case FailedCalculatingTaxesError
  with assms(4) show ?thesis
    by (simp add: handler_resolved [OF assms(1-3)] match_result_def on_error_def status_table_def)
next
  case ConfigBrokenError
  with assms(4) show ?thesis
    by (simp add: handler_resolved [OF assms(1-3)] match_result_def on_error_def status_table_def)
next
  case ExpectedIncompletePayloadError
  with assms(4) show ?thesis
    by (simp add: handler_resolved [OF assms(1-3)] match_result_def on_error_def status_table_def)
next
  case UnhandledError
  with assms(4) show ?thesis
    by (simp add: handler_resolved [OF assms(1-3)] match_result_def on_error_def status_table_def)
next
  case OtherConstructor
  with assms(4) show ?thesis
    by (simp add: status_table_def)
qed

theorem error_variant_status_and_message_witness:
  "checkPayload (demo_env None (Resolves (Inl (demo_error ExpectedIncompletePayloadError)))) demo_payload = None
   \<and> extractAppConfigFromPrivateMetadata
        (demo_env None (Resolves (Inl (demo_error ExpectedIncompletePayloadError))))
        (appMetadata demo_payload) = Inr (Inr 1)
   \<and> calculateTaxes (demo_env None (Resolves (Inl (demo_error ExpectedIncompletePayloadError))))
        demo_payload demo_auth (Some (appMetadata demo_payload))
        = Resolves (Inl (demo_error ExpectedIncompletePayloadError))
   \<and> map_of status_table (err_constructor (demo_error ExpectedIncompletePayloadError)) = Some 400
   \<and> (\<exists>pre. fst (handler (demo_env None (Resolves (Inl (demo_error ExpectedIncompletePayloadError))))
                  demo_payload demo_auth init_state) = Fulfilled
          \<and> responses (snd (handler (demo_env None (Resolves (Inl (demo_error ExpectedIncompletePayloadError))))
                  demo_payload demo_auth init_state))
              = [\<lparr>status = 400, body = MessageBody (pre @ ''Q2hlY2tvdXQ6MQ=='')\<rparr>])"
proof -
  let ?env = "demo_env None (Resolves (Inl (demo_error ExpectedIncompletePayloadError)))
                :: (nat, nat, nat) collaborators"
  have h1: "checkPayload ?env demo_payload = None"
    by (simp add: demo_env_def)
  have h2: "extractAppConfigFromPrivateMetadata ?env (appMetadata demo_payload) = Inr (Inr 1)"
    by (simp add: demo_env_def appMetadata_def demo_payload_def)
  have h3: "calculateTaxes ?env demo_payload demo_auth (Some (appMetadata demo_payload))
              = Resolves (Inl (demo_error ExpectedIncompletePayloadError))"
    by (simp add: demo_env_def)
  have h4: "map_of status_table (err_constructor (demo_error ExpectedIncompletePayloadError)) = Some 400"
    by (simp add: status_table_def demo_error_def)
  have h5: "responses (init_state :: nat handler_state) = []"
    by (simp add: init_state_def)
  have h6: "sourceObject_id (taxBase demo_payload) = ''Q2hlY2tvdXQ6MQ==''"
    by (simp add: demo_payload_def)
  from error_variant_status_and_message [OF h1 h2 h3 h4, of init_state]
  show ?thesis
    unfolding h5 h6 using h1 h2 h3 h4 by simp
qed

text \<open>
  Claim C2. With the use case of section 4.3: every error the use case returns has one of
  the four constructors of the taxonomy, so none reaches the \<^verbatim>\<open>switch\<close> without a
  case, and for every such error the run completes with exactly one response appended.
  (\<open>calculateTaxes_spec_resolves\<close>: that use case neither throws nor rejects.
  \<open>unlisted_constructor_falls_through\<close>: an error with any other constructor would be
  answered with no response.)
\<close>

theorem use_case_error_gets_one_response:
  assumes "checkPayload env p = None"
    and "extractAppConfigFromPrivateMetadata env (appMetadata p) = Inr (Inr cfg)"
    and "calculateTaxes env = calculateTaxes_spec deps"
    and "calculateTaxes env p a (Some (appMetadata p)) = Resolves (Inl err)"
  shows "err_constructor err \<in> set use_case_error_variants
         \<and> err_constructor err \<noteq> OtherConstructor
         \<and> fst (handler env p a s) = Fulfilled
         \<and> (\<exists>r. responses (snd (handler env p a s)) = responses s @ [r])"
proof -
  from assms(3,4) have v: "err_constructor err \<in> set use_case_error_variants"
    using calculateTaxes_spec_error_variants [of deps p a "Some (appMetadata p)" err] by simp
  then have "err_constructor err \<noteq> OtherConstructor"
    by (auto simp add: use_case_error_variants_def status_table_def)
  with v listed_variant_gets_one_response [OF assms(1,2,4) v, of s]
  show ?thesis by simp
qed

theorem use_case_error_gets_one_response_witness:
  "checkPayload ((demo_env None (Rejects (OtherThrown ''unused'')))
                   \<lparr>calculateTaxes := calculateTaxes_spec demo_deps\<rparr>) demo_payload = None
   \<and> extractAppConfigFromPrivateMetadata
        ((demo_env None (Rejects (OtherThrown ''unused'')))
           \<lparr>calculateTaxes := calculateTaxes_spec demo_deps\<rparr>) (appMetadata demo_payload) = Inr (Inr 1)
   \<and> calculateTaxes ((demo_env None (Rejects (OtherThrown ''unused'')))
                        \<lparr>calculateTaxes := calculateTaxes_spec demo_deps\<rparr>)
       = calculateTaxes_spec demo_deps
   \<and> calculateTaxes ((demo_env None (Rejects (OtherThrown ''unused'')))
                        \<lparr>calculateTaxes := calculateTaxes_spec demo_deps\<rparr>)
        demo_payload demo_auth (Some (appMetadata demo_payload))
       = Resolves (Inl \<lparr>err_constructor = UnhandledError, err_cause = Some (OtherThrown ''ECONNRESET'')\<rparr>)
   \<and> UnhandledError \<in> set use_case_error_variants
   \<and> fst (handler ((demo_env None (Rejects (OtherThrown ''unused'')))
                      \<lparr>calculateTaxes := calculateTaxes_spec demo_deps\<rparr>)
             demo_payload demo_auth init_state) = Fulfilled
   \<and> (\<exists>r. responses (snd (handler ((demo_env None (Rejects (OtherThrown ''unused'')))
                                      \<lparr>calculateTaxes := calculateTaxes_spec demo_deps\<rparr>)
                  demo_payload demo_auth init_state)) = [r])"
proof -
  let ?env = "(demo_env None (Rejects (OtherThrown ''unused'')))
                \<lparr>calculateTaxes := calculateTaxes_spec demo_deps\<rparr> :: (nat, nat, nat) collaborators"
  let ?err = "\<lparr>err_constructor = UnhandledError, err_cause = Some (OtherThrown ''ECONNRESET'')\<rparr>"
  have h1: "checkPayload ?env demo_payload = None"
    by (simp add: demo_env_def)
  have h2: "extractAppConfigFromPrivateMetadata ?env (appMetadata demo_payload) = Inr (Inr 1)"
    by (simp add: demo_env_def appMetadata_def demo_payload_def)
  have h3: "calculateTaxes ?env = calculateTaxes_spec demo_deps"
    by simp
  have h4: "calculateTaxes ?env demo_payload demo_auth (Some (appMetadata demo_payload))
              = Resolves (Inl ?err)"
    by (simp add: calculateTaxes_spec_def demo_deps_def appMetadata_def demo_payload_def)
  have h5: "responses (init_state :: nat handler_state) = []"
    by (simp add: init_state_def)
  from use_case_error_gets_one_response [OF h1 h2 h3 h4, of init_state]
  show ?thesis
    unfolding h5 using h1 h2 h3 h4 by simp
qed

text \<open>
  Claim C6. When the use case's promise resolves with a success value, the handler sends
  status 200 with the body \<^verbatim>\<open>ctx.buildResponse(value)\<close>.
\<close>

theorem success_value_gets_200:
  assumes "checkPayload env p = None"
    and "extractAppConfigFromPrivateMetadata env (appMetadata p) = Inr (Inr cfg)"
    and "calculateTaxes env p a (Some (appMetadata p)) = Resolves (Inr v)"
  shows "fst (handler env p a s) = Fulfilled
         \<and> responses (snd (handler env p a s)) =
             responses s @ [\<lparr>status = 200, body = BuiltResponse (buildResponse env v)\<rparr>]"
  by (simp add: handler_resolved [OF assms] match_result_def)

theorem success_value_gets_200_witness:
  "checkPayload (demo_env None (Resolves (Inr 41))) demo_payload = None
   \<and> extractAppConfigFromPrivateMetadata (demo_env None (Resolves (Inr 41)))
        (appMetadata demo_payload) = Inr (Inr 1)
   \<and> calculateTaxes (demo_env None (Resolves (Inr 41)))
        demo_payload demo_auth (Some (appMetadata demo_payload)) = Resolves (Inr 41)
   \<and> fst (handler (demo_env None (Resolves (Inr 41))) demo_payload demo_auth init_state) = Fulfilled
   \<and> responses (snd (handler (demo_env None (Resolves (Inr 41))) demo_payload demo_auth init_state))
       = [\<lparr>status = 200, body = BuiltResponse 42\<rparr>]"
proof -
  let ?env = "demo_env None (Resolves (Inr 41)) :: (nat, nat, nat) collaborators"
  have h1: "checkPayload ?env demo_payload = None"
    by (simp add: demo_env_def)
  have h2: "extractAppConfigFromPrivateMetadata ?env (appMetadata demo_payload) = Inr (Inr 1)"
    by (simp add: demo_env_def appMetadata_def demo_payload_def)
  have h3: "calculateTaxes ?env demo_payload demo_auth (Some (appMetadata demo_payload))
              = Resolves (Inr 41)"
    by (simp add: demo_env_def)
  have h5: "responses (init_state :: nat handler_state) = []"
    by (simp add: init_state_def)
  have h6: "buildResponse ?env 41 = 42"
    by (simp add: demo_env_def)
  from success_value_gets_200 [OF h1 h2 h3, of init_state]
  show ?thesis
    unfolding h5 h6 using h1 h2 h3 by simp
qed

text \<open>
  Claim C5. When the extractor returns an error for the metadata of the request, the
  handler sends status 400 with a message that ends with the checkout id, the use case is
  not called and the metadata cache is left as it was.
\<close>

theorem extraction_error_short_circuits:
  assumes "checkPayload env p = None"
    and "extractAppConfigFromPrivateMetadata env (appMetadata p) = Inr (Inl cerr)"
  shows "fst (handler env p a s) = Fulfilled
         \<and> responses (snd (handler env p a s)) =
             responses s @
               [\<lparr>status = 400,
                 body = MessageBody (''App configuration is broken for checkout: '' @ sourceObject_id (taxBase p))\<rparr>]
         \<and> use_case_calls (snd (handler env p a s)) = use_case_calls s
         \<and> metadata_cache (snd (handler env p a s)) = metadata_cache s"
  by (simp add: handler_extraction_error [OF assms])

theorem extraction_error_short_circuits_witness:
  "checkPayload (demo_env None (Resolves (Inr 41))) bare_payload = None
   \<and> extractAppConfigFromPrivateMetadata (demo_env None (Resolves (Inr 41)))
        (appMetadata bare_payload) = Inr (Inl ''missing configuration'')
   \<and> fst (handler (demo_env None (Resolves (Inr 41))) bare_payload demo_auth init_state) = Fulfilled
   \<and> responses (snd (handler (demo_env None (Resolves (Inr 41))) bare_payload demo_auth init_state))
       = [\<lparr>status = 400,
           body = MessageBody ''App configuration is broken for checkout: Q2hlY2tvdXQ6Mg==''\<rparr>]
   \<and> use_case_calls (snd (handler (demo_env None (Resolves (Inr 41))) bare_payload demo_auth init_state)) = 0
   \<and> metadata_cache (snd (handler (demo_env None (Resolves (Inr 41))) bare_payload demo_auth init_state)) = None"
proof -
  let ?env = "demo_env None (Resolves (Inr 41)) :: (nat, nat, nat) collaborators"
  have h1: "checkPayload ?env bare_payload = None"
    by (simp add: demo_env_def)
  have h2: "extractAppConfigFromPrivateMetadata ?env (appMetadata bare_payload)
              = Inr (Inl ''missing configuration'')"
    by (simp add: demo_env_def appMetadata_def bare_payload_def)
  have h5: "responses (init_state :: nat handler_state) = []"
           "use_case_calls (init_state :: nat handler_state) = 0"
           "metadata_cache (init_state :: nat handler_state) = None"
    by (simp_all add: init_state_def)
  have h6: "sourceObject_id (taxBase bare_payload) = ''Q2hlY2tvdXQ6Mg==''"
    by (simp add: bare_payload_def)
  from extraction_error_short_circuits [OF h1 h2, of demo_auth init_state]
  show ?thesis
    unfolding h5 h6 using h1 h2 by simp
qed

text \<open>
  Claim C3. With the use case of section 4.3: when the payload is complete, the
  configuration resolves and the provider fails with an exception that is not a known
  domain failure, the use case resolves with \<open>UnhandledError\<close> carrying the cause, the
  handler gives that error to Sentry exactly once and responds with status 500.
\<close>

theorem unrecognized_provider_failure:
  assumes "checkPayload env p = None"
    and "extractAppConfigFromPrivateMetadata env (appMetadata p) = Inr (Inr cfg)"
    and "calculateTaxes env = calculateTaxes_spec deps"
    and "payload_complete deps p"
    and "resolve_config deps p (Some (appMetadata p)) = Inr cfg'"
    and "provider_call deps cfg' p a = Inl e"
    and "\<not> known_domain_failure deps e"
  shows "calculateTaxes env p a (Some (appMetadata p))
           = Resolves (Inl \<lparr>err_constructor = UnhandledError, err_cause = Some e\<rparr>)
         \<and> fst (handler env p a s) = Fulfilled
         \<and> count_list (captured (snd (handler env p a s)))
              (CapturedUseCaseError \<lparr>err_constructor = UnhandledError, err_cause = Some e\<rparr>)
             = Suc (count_list (captured s)
                 (CapturedUseCaseError \<lparr>err_constructor = UnhandledError, err_cause = Some e\<rparr>))
         \<and> responses (snd (handler env p a s)) =
             responses s @
               [\<lparr>status = 500,
                 body = MessageBody (''Failed to calculate taxes (Unhandled error) for checkout: ''
                          @ sourceObject_id (taxBase p))\<rparr>]"
proof -
  have uc: "calculateTaxes env p a (Some (appMetadata p))
              = Resolves (Inl \<lparr>err_constructor = UnhandledError, err_cause = Some e\<rparr>)"
    using assms(3-7) by (simp add: calculateTaxes_spec_def)
  have cap: "captured (after_extraction env p s) =
               captured s @ (case logConfiguration env cfg (channel_slug (taxBase p)) of
                               None \<Rightarrow> [] | Some x \<Rightarrow> [LogConfigurationMetricError x])"
    using assms(2) by (simp add: after_extraction_def extract_config_captured)
  show ?thesis
    by (simp add: uc handler_resolved [OF assms(1,2) uc] match_result_def on_error_def cap
        split: option.split)
qed

theorem unrecognized_provider_failure_witness:
  "checkPayload ((demo_env None (Rejects (OtherThrown ''unused'')))
                   \<lparr>calculateTaxes := calculateTaxes_spec demo_deps\<rparr>) demo_payload = None
   \<and> extractAppConfigFromPrivateMetadata
        ((demo_env None (Rejects (OtherThrown ''unused'')))
           \<lparr>calculateTaxes := calculateTaxes_spec demo_deps\<rparr>) (appMetadata demo_payload) = Inr (Inr 1)
   \<and> calculateTaxes ((demo_env None (Rejects (OtherThrown ''unused'')))
                        \<lparr>calculateTaxes := calculateTaxes_spec demo_deps\<rparr>)
       = calculateTaxes_spec demo_deps
   \<and> payload_complete demo_deps demo_payload
   \<and> resolve_config demo_deps demo_payload (Some (appMetadata demo_payload)) = Inr 1
   \<and> provider_call demo_deps 1 demo_payload demo_auth = Inl (OtherThrown ''ECONNRESET'')
   \<and> \<not> known_domain_failure demo_deps (OtherThrown ''ECONNRESET'')
   \<and> calculateTaxes_spec demo_deps demo_payload demo_auth (Some (appMetadata demo_payload))
       = Resolves (Inl \<lparr>err_constructor = UnhandledError, err_cause = Some (OtherThrown ''ECONNRESET'')\<rparr>)
   \<and> captured (snd (handler ((demo_env None (Rejects (OtherThrown ''unused'')))
                               \<lparr>calculateTaxes := calculateTaxes_spec demo_deps\<rparr>)
                       demo_payload demo_auth init_state))
       = [CapturedUseCaseError
            \<lparr>err_constructor = UnhandledError, err_cause = Some (OtherThrown ''ECONNRESET'')\<rparr>]
   \<and> responses (snd (handler ((demo_env None (Rejects (OtherThrown ''unused'')))
                               \<lparr>calculateTaxes := calculateTaxes_spec demo_deps\<rparr>)
                       demo_payload demo_auth init_state))
       = [\<lparr>status = 500,
           body = MessageBody ''Failed to calculate taxes (Unhandled error) for checkout: Q2hlY2tvdXQ6MQ==''\<rparr>]"
proof -
  let ?env = "(demo_env None (Rejects (OtherThrown ''unused'')))
                \<lparr>calculateTaxes := calculateTaxes_spec demo_deps\<rparr> :: (nat, nat, nat) collaborators"
  have h1: "checkPayload ?env demo_payload = None"
    by (simp add: demo_env_def)
  have h2: "extractAppConfigFromPrivateMetadata ?env (appMetadata demo_payload) = Inr (Inr 1)"
    by (simp add: demo_env_def appMetadata_def demo_payload_def)
  have h3: "calculateTaxes ?env = calculateTaxes_spec demo_deps"
    by simp
  have h4: "payload_complete demo_deps demo_payload"
    by (simp add: demo_deps_def)
  have h5: "resolve_config demo_deps demo_payload (Some (appMetadata demo_payload)) = Inr 1"
    by (simp add: demo_deps_def appMetadata_def demo_payload_def)
  have h6: "provider_call demo_deps 1 demo_payload demo_auth = Inl (OtherThrown ''ECONNRESET'')"
    by (simp add: demo_deps_def)
  have h7: "\<not> known_domain_failure demo_deps (OtherThrown ''ECONNRESET'')"
    by (simp add: demo_deps_def)
  have cap: "captured (snd (handler ?env demo_payload demo_auth init_state))
       = [CapturedUseCaseError
            \<lparr>err_constructor = UnhandledError, err_cause = Some (OtherThrown ''ECONNRESET'')\<rparr>]"
    by (simp add: handler_def try_block_def extract_config_def log_configuration_step_def
        invoke_use_case_def match_result_def on_error_def set_observability_def
        calculateTaxes_spec_def demo_deps_def demo_env_def demo_payload_def appMetadata_def
        init_state_def Let_def)
  have i: "responses (init_state :: nat handler_state) = []"
    by (simp add: init_state_def)
  have j: "sourceObject_id (taxBase demo_payload) = ''Q2hlY2tvdXQ6MQ==''"
    by (simp add: demo_payload_def)
  from unrecognized_provider_failure [OF h1 h2 h3 h4 h5 h6 h7, of init_state]
  show ?thesis
    unfolding i j using h1 h2 h3 h4 h5 h6 h7 cap by simp
qed

text \<open>
  Claim C7. Two runs whose collaborators differ only in what the configuration logger does
  complete alike and send the same responses. The extraction yields what the extractor
  returned whatever the logger does, and a logger that throws adds one
  \<^verbatim>\<open>LogConfigurationMetricError\<close>, carrying the cause, to what Sentry is given.
\<close>

theorem logging_outcome_leaves_response:
  "fst (handler (env\<lparr>logConfiguration := l1\<rparr>) p a s)
     = fst (handler (env\<lparr>logConfiguration := l2\<rparr>) p a s)
   \<and> responses (snd (handler (env\<lparr>logConfiguration := l1\<rparr>) p a s))
     = responses (snd (handler (env\<lparr>logConfiguration := l2\<rparr>) p a s))
   \<and> fst (extract_config (env\<lparr>logConfiguration := l1\<rparr>) md slug s)
     = extractAppConfigFromPrivateMetadata env md
   \<and> captured (snd (extract_config (env\<lparr>logConfiguration := l1\<rparr>) md slug s))
     = captured s @
         (case extractAppConfigFromPrivateMetadata env md of
            Inl e \<Rightarrow> []
          | Inr (Inl cerr) \<Rightarrow> []
          | Inr (Inr cfg) \<Rightarrow>
              (case l1 cfg slug of None \<Rightarrow> [] | Some e \<Rightarrow> [LogConfigurationMetricError e]))"
proof -
  have "(fst (handler (env\<lparr>logConfiguration := l1\<rparr>) p a s),
         responses (snd (handler (env\<lparr>logConfiguration := l1\<rparr>) p a s)))
        = (fst (handler (env\<lparr>logConfiguration := l2\<rparr>) p a s),
           responses (snd (handler (env\<lparr>logConfiguration := l2\<rparr>) p a s)))"
    by (simp only: handler_outcome outcome_of_logging)
  then show ?thesis
    by (simp add: extract_config_fst extract_config_captured split: sum.split)
qed

text \<open>
  Claim C10, as stated, at a concrete request: the payload has no recipient, the extractor
  accepts the empty list, and the use case resolves with
  \<open>ExpectedIncompletePayloadError\<close>. The handler responds with status 400 although
  the extractor did not fail on the empty list.
\<close>

theorem status_400_without_extractor_failure:
  "recipient bare_payload = None
   \<and> extractAppConfigFromPrivateMetadata
        (lenient_env (Resolves (Inl (demo_error ExpectedIncompletePayloadError)))) [] = Inr (Inr 0)
   \<and> map status
        (responses (snd (handler (lenient_env (Resolves (Inl (demo_error ExpectedIncompletePayloadError))))
                           bare_payload demo_auth init_state)))
       = [400]"
  by (simp add: handler_def try_block_def extract_config_def log_configuration_step_def
      invoke_use_case_def match_result_def on_error_def set_observability_def
      lenient_env_def bare_payload_def appMetadata_def demo_error_def init_state_def Let_def)

text \<open>
  Claim C10, as the code has it. When the payload has no recipient, or a recipient without private
  metadata, the metadata handed to the extractor is the empty list. If the extractor
  returns an error for the empty list, the run is the early return of lines 82 to 88: the
  400 with the broken-configuration message, no call of the use case, the cache untouched.
  If it returns a configuration, the empty list is stored in the cache, the use case is
  called once with that cache, the run is whatever the use case's outcome leads to (its
  own 400 for an incomplete payload included), and the early 400 is not what is sent.
\<close>

theorem absent_metadata_use_case_decides:
  assumes "checkPayload env p = None"
    and "recipient p = None \<or> (\<exists>r. recipient p = Some r \<and> privateMetadata r = None)"
    and "extractAppConfigFromPrivateMetadata env [] = Inr result"
  shows "appMetadata p = []
         \<and> (case result of
               Inl cerr \<Rightarrow>
                 handler env p a s =
                   (Fulfilled,
                    res_status_json 400
                      (MessageBody (''App configuration is broken for checkout: ''
                         @ sourceObject_id (taxBase p)))
                      (logger_warn ''Failed to extract app config from metadata''
                         (set_observability env p s)))
                 \<and> use_case_calls (snd (handler env p a s)) = use_case_calls s
                 \<and> metadata_cache (snd (handler env p a s)) = metadata_cache s
             | Inr cfg \<Rightarrow>
                 handler env p a s =
                   (case calculateTaxes env p a (Some []) of
                      ThrowsSync e \<Rightarrow>
                        (Fulfilled,
                         catch_block e
                           ((setMetadata [] (after_extraction env p s))
                              \<lparr>use_case_calls := Suc (use_case_calls s)\<rparr>))
                    | Rejects e \<Rightarrow>
                        (RejectedWith e,
                         (setMetadata [] (after_extraction env p s))
                           \<lparr>use_case_calls := Suc (use_case_calls s)\<rparr>)
                    | Resolves r \<Rightarrow>
                        (Fulfilled,
                         match_result env p r
                           ((setMetadata [] (after_extraction env p s))
                              \<lparr>use_case_calls := Suc (use_case_calls s)\<rparr>)))
                 \<and> metadata_cache (snd (handler env p a s)) = Some []
                 \<and> use_case_calls (snd (handler env p a s)) = Suc (use_case_calls s)
                 \<and> responses (snd (handler env p a s)) \<noteq>
                     responses s @
                       [\<lparr>status = 400,
                         body = MessageBody (''App configuration is broken for checkout: ''
                                  @ sourceObject_id (taxBase p))\<rparr>])"
proof -
  from assms(2) have md: "appMetadata p = []"
    by (auto simp add: appMetadata_def)
  show ?thesis
  proof (cases result)
    case (Inl cerr)
    with assms(3) md have "extractAppConfigFromPrivateMetadata env (appMetadata p) = Inr (Inl cerr)"
      by simp
    from handler_extraction_error [OF assms(1) this, of a s] md Inl
    show ?thesis by simp
  next
    case (Inr cfg)
    with assms(3) md have ok: "extractAppConfigFromPrivateMetadata env (appMetadata p) = Inr (Inr cfg)"
      by simp
    have "snd (outcome_of env p a) \<noteq>
            [\<lparr>status = 400,
              body = MessageBody (''App configuration is broken for checkout: ''
                       @ sourceObject_id (taxBase p))\<rparr>]"
      using assms(1) ok
      by (simp add: outcome_of_def catch_response_def result_responses_def match_result_def
          on_error_def init_state_def Let_def
          split: use_case_outcome.split sum.split thrown.split error_constructor.split)
    moreover have "responses (snd (handler env p a s)) = responses s @ snd (outcome_of env p a)"
      using handler_outcome [of env p a s] by simp
    ultimately have ne: "responses (snd (handler env p a s)) \<noteq>
                   responses s @
                     [\<lparr>status = 400,
                       body = MessageBody (''App configuration is broken for checkout: ''
                                @ sourceObject_id (taxBase p))\<rparr>]"
      by simp
    have run: "handler env p a s =
                   (case calculateTaxes env p a (Some []) of
                      ThrowsSync e \<Rightarrow>
                        (Fulfilled,
                         catch_block e
                           ((setMetadata [] (after_extraction env p s))
                              \<lparr>use_case_calls := Suc (use_case_calls s)\<rparr>))
                    | Rejects e \<Rightarrow>
                        (RejectedWith e,
                         (setMetadata [] (after_extraction env p s))
                           \<lparr>use_case_calls := Suc (use_case_calls s)\<rparr>)
                    | Resolves r \<Rightarrow>
                        (Fulfilled,
                         match_result env p r
                           ((setMetadata [] (after_extraction env p s))
                              \<lparr>use_case_calls := Suc (use_case_calls s)\<rparr>)))"
      using handler_reaches_use_case [OF assms(1) ok, of a s] unfolding md .
    from handler_use_case_calls_ok [OF assms(1) ok, of a s] md
    have cache: "metadata_cache (snd (handler env p a s)) = Some []"
      and calls: "use_case_calls (snd (handler env p a s)) = Suc (use_case_calls s)"
      by simp_all
    from md Inr run cache calls ne show ?thesis
      by (simp only: sum.case simp_thms)
  qed
qed

theorem absent_metadata_use_case_decides_witness:
  "checkPayload (lenient_env (Resolves (Inr 41))) bare_payload = None
   \<and> (recipient bare_payload = None
        \<or> (\<exists>r. recipient bare_payload = Some r \<and> privateMetadata r = None))
   \<and> extractAppConfigFromPrivateMetadata (lenient_env (Resolves (Inr 41))) [] = Inr (Inr 0)
   \<and> calculateTaxes (lenient_env (Resolves (Inr 41))) bare_payload demo_auth (Some [])
        = Resolves (Inr 41)
   \<and> appMetadata bare_payload = []
   \<and> fst (handler (lenient_env (Resolves (Inr 41))) bare_payload demo_auth init_state) = Fulfilled
   \<and> responses (snd (handler (lenient_env (Resolves (Inr 41))) bare_payload demo_auth init_state))
       = [\<lparr>status = 200, body = BuiltResponse 42\<rparr>]
   \<and> metadata_cache (snd (handler (lenient_env (Resolves (Inr 41))) bare_payload demo_auth init_state))
       = Some []
   \<and> use_case_calls (snd (handler (lenient_env (Resolves (Inr 41))) bare_payload demo_auth init_state))
       = 1"
proof -
  let ?env = "lenient_env (Resolves (Inr 41))"
  have h1: "checkPayload ?env bare_payload = None"
    by (simp add: lenient_env_def)
  have h2: "recipient bare_payload = None
              \<or> (\<exists>r. recipient bare_payload = Some r \<and> privateMetadata r = None)"
    by (simp add: bare_payload_def)
  have h3: "extractAppConfigFromPrivateMetadata ?env [] = Inr (Inr 0)"
    by (simp add: lenient_env_def)
  have h4: "calculateTaxes ?env bare_payload demo_auth (Some []) = Resolves (Inr 41)"
    by (simp add: lenient_env_def)
  have h5: "use_case_calls (init_state :: nat handler_state) = 0"
    by (simp add: init_state_def)
  have h6: "responses (after_extraction ?env bare_payload (init_state :: nat handler_state)) = []"
    by (simp add: init_state_def)
  have h7: "buildResponse ?env 41 = 42"
    by (simp add: lenient_env_def)
  from absent_metadata_use_case_decides [OF h1 h2 h3, of demo_auth init_state]
  show ?thesis
    unfolding h4 h5 using h1 h2 h3 h4 h6 h7 by (simp add: match_result_def)
qed

text \<open>
  Claim C4, at a concrete request: the payload check passes, the configuration is
  extracted, and the promise returned by the use case rejects with an
  \<^verbatim>\<open>AvataxInvalidAddressError\<close>. The \<^verbatim>\<open>try\<close> was left when the promise was
  returned, so the \<^verbatim>\<open>catch\<close> does not run: the handler's promise rejects with that
  error and the handler has sent no response, where the claim has status 400. (An
  \<^verbatim>\<open>AvataxInvalidAddressError\<close> thrown while the \<^verbatim>\<open>try\<close> block runs is caught and
  answered with 400: \<open>exception_in_try_block_is_caught\<close>, \<open>caught_address_error\<close>.)
\<close>

theorem rejected_address_error_not_caught:
  "fst (handler (demo_env None (Rejects (AvataxInvalidAddressError ''Address is incomplete'')))
          demo_payload demo_auth init_state)
     = RejectedWith (AvataxInvalidAddressError ''Address is incomplete'')
   \<and> responses (snd (handler (demo_env None (Rejects (AvataxInvalidAddressError ''Address is incomplete'')))
          demo_payload demo_auth init_state)) = []
   \<and> captured (snd (handler (demo_env None (Rejects (AvataxInvalidAddressError ''Address is incomplete'')))
          demo_payload demo_auth init_state)) = []"
  by (simp add: handler_def try_block_def extract_config_def log_configuration_step_def
      invoke_use_case_def set_observability_def demo_env_def demo_payload_def appMetadata_def
      init_state_def Let_def)

text \<open>
  Claim C8, at a concrete request: the promise returned by the use case rejects with an
  exception that is not an \<^verbatim>\<open>AvataxInvalidAddressError\<close>. The handler's promise rejects
  with it; the handler has sent no response and has given nothing to Sentry, where the
  claim has one report and status 500. (An exception thrown while the \<^verbatim>\<open>try\<close> block
  runs is caught, reported and answered with 500: \<open>exception_in_try_block_is_caught\<close>,
  \<open>caught_other_exception\<close>.)
\<close>

theorem rejected_exception_not_caught:
  "fst (handler (demo_env None (Rejects (OtherThrown ''socket hang up'')))
          demo_payload demo_auth init_state)
     = RejectedWith (OtherThrown ''socket hang up'')
   \<and> responses (snd (handler (demo_env None (Rejects (OtherThrown ''socket hang up'')))
          demo_payload demo_auth init_state)) = []
   \<and> captured (snd (handler (demo_env None (Rejects (OtherThrown ''socket hang up'')))
          demo_payload demo_auth init_state)) = []"
  by (simp add: handler_def try_block_def extract_config_def log_configuration_step_def
      invoke_use_case_def set_observability_def demo_env_def demo_payload_def appMetadata_def
      init_state_def Let_def)

section \<open>The claim about the Typesense webhooks-status handler\<close>

lemma status_effects [simp]:
  "disable_calls (logger_debug m s) = disable_calls s"
  "disable_calls (res_status n b s) = disable_calls s"
  "disable_calls (snd (call_disableOwnWebhooks env a s)) = Suc (disable_calls s)"
  "fst (call_disableOwnWebhooks env a s) = disableOwnWebhooks env (appId a)"
  by (simp_all add: logger_debug_def res_status_def call_disableOwnWebhooks_def)

lemma settings_step_disable_calls:
  "disable_calls (snd (settings_step env a config s)) =
     disable_calls s + (if appConfig config = None \<or> ping_throws env config then 1 else 0)"
  by (simp add: settings_step_def ping_throws_def Let_def split: option.split)

lemma fetch_step_disable_calls [simp]:
  "disable_calls (fetch_step env a s) = disable_calls s"
  by (simp add: fetch_step_def Let_def split: sum.split option.split)

text \<open>
  Claim C9. Once the stored configuration has been read, \<^verbatim>\<open>disableOwnWebhooks\<close> is
  called once when the configuration has no \<^verbatim>\<open>appConfig\<close> or the ping throws, and is
  not called when the configuration is present and the ping succeeds.
\<close>

theorem webhooks_disabled_exactly_when:
  assumes "configManager_get env (saleorApiUrl a) = Inr config"
  shows "disable_calls (snd (webhooksStatusHandler env a s)) =
           disable_calls s + (if appConfig config = None \<or> ping_throws env config then 1 else 0)"
proof (cases "settings_step env a config (logger_debug ''fetched settings'' s)")
  case (Pair r s1)
  then have "disable_calls s1 =
      disable_calls s + (if appConfig config = None \<or> ping_throws env config then 1 else 0)"
    using settings_step_disable_calls [of env a config "logger_debug ''fetched settings'' s"]
    by simp
  with assms Pair show ?thesis
    by (cases r) (simp_all add: webhooksStatusHandler_def)
qed

theorem webhooks_disabled_exactly_when_witness:
  "configManager_get (demo_status_env (Some (OtherThrown ''401 Unauthorized'')) demo_typesense_config)
     (saleorApiUrl demo_auth) = Inr demo_typesense_config
   \<and> appConfig demo_typesense_config \<noteq> None
   \<and> ping_throws (demo_status_env (Some (OtherThrown ''401 Unauthorized'')) demo_typesense_config)
        demo_typesense_config
   \<and> disable_calls (snd (webhooksStatusHandler
        (demo_status_env (Some (OtherThrown ''401 Unauthorized'')) demo_typesense_config)
        demo_auth init_status_state)) = 1
   \<and> configManager_get (demo_status_env None demo_typesense_config)
     (saleorApiUrl demo_auth) = Inr demo_typesense_config
   \<and> \<not> ping_throws (demo_status_env None demo_typesense_config) demo_typesense_config
   \<and> disable_calls (snd (webhooksStatusHandler (demo_status_env None demo_typesense_config)
        demo_auth init_status_state)) = 0"
proof -
  let ?bad = "demo_status_env (Some (OtherThrown ''401 Unauthorized'')) demo_typesense_config"
  let ?good = "demo_status_env None demo_typesense_config"
  have g1: "configManager_get ?bad (saleorApiUrl demo_auth) = Inr demo_typesense_config"
    by (simp add: demo_status_env_def)
  have g2: "configManager_get ?good (saleorApiUrl demo_auth) = Inr demo_typesense_config"
    by (simp add: demo_status_env_def)
  have c: "appConfig demo_typesense_config \<noteq> None"
    by (simp add: demo_typesense_config_def)
  have p1: "ping_throws ?bad demo_typesense_config"
    by (simp add: ping_throws_def ping_result_def demo_status_env_def demo_typesense_config_def)
  have p2: "\<not> ping_throws ?good demo_typesense_config"
    by (simp add: ping_throws_def ping_result_def demo_status_env_def demo_typesense_config_def)
  have i: "disable_calls (init_status_state :: string status_state) = 0"
    by (simp add: init_status_state_def)
  from webhooks_disabled_exactly_when [OF g1, of init_status_state]
       webhooks_disabled_exactly_when [OF g2, of init_status_state]
  show ?thesis
    unfolding i using g1 g2 c p1 p2 by simp
qed

end
